theory Spec2Isabelle
  imports Complex_Main "HOL-Library.Multiset"
begin

section \<open>The 2D transform editor\<close>

text \<open>
  A model of \<^verbatim>\<open>Image Formation/2D_editor.py\<close>: the class \<^verbatim>\<open>TransformableRectItem\<close>
  (a rectangle item with mode-dependent handles) and the class \<^verbatim>\<open>MainWindow\<close> (the scene
  of items, the draw gesture, saving and loading).

  Coordinates, rectangle fields and matrix entries are real numbers. The editor is written
  against a GUI library through its Python binding; the few library values and routines
  it relies on (rectangles, 3x3 matrices, the properties of a graphics item, the stacking
  order of a scene, the signatures of the binding) are modelled as the library and the
  binding document them, each in its own subsection, apart from the program's own
  methods.
\<close>

subsection \<open>Points and rectangles of the library\<close>

type_synonym point = "real \<times> real"

text \<open>A rectangle is stored as its top-left corner and its size; the size may be negative.\<close>

record QRectF =
  rx :: real
  ry :: real
  rwidth :: real
  rheight :: real

definition QRectF_xywh :: "real \<Rightarrow> real \<Rightarrow> real \<Rightarrow> real \<Rightarrow> QRectF" where
  "QRectF_xywh x y w h = \<lparr>rx = x, ry = y, rwidth = w, rheight = h\<rparr>"

text \<open>\<^verbatim>\<open>QRectF(topLeft, bottomRight)\<close>: the size is the difference of the two points.\<close>

definition QRectF_points :: "point \<Rightarrow> point \<Rightarrow> QRectF" where
  "QRectF_points p1 p2 = QRectF_xywh (fst p1) (snd p1) (fst p2 - fst p1) (snd p2 - snd p1)"

text \<open>\<^verbatim>\<open>QRectF(topLeft, size)\<close>.\<close>

definition QRectF_sized :: "point \<Rightarrow> real \<times> real \<Rightarrow> QRectF" where
  "QRectF_sized p1 sz = QRectF_xywh (fst p1) (snd p1) (fst sz) (snd sz)"

definition topLeft :: "QRectF \<Rightarrow> point" where
  "topLeft r = (rx r, ry r)"

definition topRight :: "QRectF \<Rightarrow> point" where
  "topRight r = (rx r + rwidth r, ry r)"

definition bottomRight :: "QRectF \<Rightarrow> point" where
  "bottomRight r = (rx r + rwidth r, ry r + rheight r)"

definition bottomLeft :: "QRectF \<Rightarrow> point" where
  "bottomLeft r = (rx r, ry r + rheight r)"

definition center :: "QRectF \<Rightarrow> point" where
  "center r = (rx r + rwidth r / 2, ry r + rheight r / 2)"

definition top_y :: "QRectF \<Rightarrow> real" where
  "top_y r = ry r"

text \<open>
  Moving one edge keeps the opposite edge where it is: the left and top setters move the
  origin and take the difference out of the size, the right and bottom setters only
  recompute the size.
\<close>

definition setLeft :: "real \<Rightarrow> QRectF \<Rightarrow> QRectF" where
  "setLeft a r = r\<lparr>rx := a, rwidth := rwidth r - (a - rx r)\<rparr>"

definition setRight :: "real \<Rightarrow> QRectF \<Rightarrow> QRectF" where
  "setRight a r = r\<lparr>rwidth := a - rx r\<rparr>"

definition setTop :: "real \<Rightarrow> QRectF \<Rightarrow> QRectF" where
  "setTop a r = r\<lparr>ry := a, rheight := rheight r - (a - ry r)\<rparr>"

definition setBottom :: "real \<Rightarrow> QRectF \<Rightarrow> QRectF" where
  "setBottom a r = r\<lparr>rheight := a - ry r\<rparr>"

definition setTopLeft :: "point \<Rightarrow> QRectF \<Rightarrow> QRectF" where
  "setTopLeft p r = setTop (snd p) (setLeft (fst p) r)"

definition setTopRight :: "point \<Rightarrow> QRectF \<Rightarrow> QRectF" where
  "setTopRight p r = setTop (snd p) (setRight (fst p) r)"

definition setBottomLeft :: "point \<Rightarrow> QRectF \<Rightarrow> QRectF" where
  "setBottomLeft p r = setBottom (snd p) (setLeft (fst p) r)"

definition setBottomRight :: "point \<Rightarrow> QRectF \<Rightarrow> QRectF" where
  "setBottomRight p r = setBottom (snd p) (setRight (fst p) r)"

text \<open>\<^verbatim>\<open>normalized()\<close> flips a negative width or height.\<close>

definition normalized :: "QRectF \<Rightarrow> QRectF" where
  "normalized r =
     (let r1 = (if rwidth r < 0 then r\<lparr>rx := rx r + rwidth r, rwidth := - rwidth r\<rparr> else r)
      in if rheight r1 < 0 then r1\<lparr>ry := ry r1 + rheight r1, rheight := - rheight r1\<rparr> else r1)"

text \<open>\<^verbatim>\<open>contains(point)\<close>: edges included, a rectangle without extent contains nothing.\<close>

definition contains :: "QRectF \<Rightarrow> point \<Rightarrow> bool" where
  "contains r p =
     (let l = (if rwidth r < 0 then rx r + rwidth r else rx r);
          rr = (if rwidth r < 0 then rx r else rx r + rwidth r);
          t = (if rheight r < 0 then ry r + rheight r else ry r);
          b = (if rheight r < 0 then ry r else ry r + rheight r)
      in if l = rr then False
         else if fst p < l \<or> rr < fst p then False
         else if t = b then False
         else if snd p < t \<or> b < snd p then False
         else True)"

subsection \<open>3x3 matrices of the library\<close>

record QTransform =
  m11 :: real
  m12 :: real
  m13 :: real
  m21 :: real
  m22 :: real
  m23 :: real
  m31 :: real
  m32 :: real
  m33 :: real

definition QTransform_of ::
  "real \<Rightarrow> real \<Rightarrow> real \<Rightarrow> real \<Rightarrow> real \<Rightarrow> real \<Rightarrow> real \<Rightarrow> real \<Rightarrow> real \<Rightarrow> QTransform" where
  "QTransform_of a b c d e f g h i =
     \<lparr>m11 = a, m12 = b, m13 = c, m21 = d, m22 = e, m23 = f, m31 = g, m32 = h, m33 = i\<rparr>"

definition identity :: QTransform where
  "identity = QTransform_of 1 0 0 0 1 0 0 0 1"

subsection \<open>The angle of a line in the library\<close>

text \<open>
  \<^verbatim>\<open>QLineF(p1, p2).angle()\<close>: the angle of the line in degrees, from 0 up to 360,
  counter-clockwise from the positive x axis, on a screen whose y axis points down.
\<close>

definition atan2 :: "real \<Rightarrow> real \<Rightarrow> real" where
  "atan2 y x =
     (if 0 < x then arctan (y / x)
      else if x < 0 then (if 0 \<le> y then arctan (y / x) + pi else arctan (y / x) - pi)
      else if 0 < y then pi / 2
      else if y < 0 then - (pi / 2)
      else 0)"

definition angle :: "point \<Rightarrow> point \<Rightarrow> real" where
  "angle p1 p2 =
     (let dx = fst p2 - fst p1;
          dy = snd p2 - snd p1;
          theta = atan2 (- dy) dx * (180 / pi);
          theta_normalized = (if theta < 0 then theta + 360 else theta)
      in if theta_normalized = 360 then 0 else theta_normalized)"

subsection \<open>Errors\<close>

text \<open>The exceptions the program can meet, as values.\<close>

datatype py_error =
    OSError
  | JSONDecodeError
  | KeyError string
  | TypeError
  | IndexError
  | AttributeError
  | RuntimeError

subsection \<open>The four-point solver as the binding offers it\<close>

text \<open>
  In the Python binding, \<^verbatim>\<open>QTransform.quadToQuad\<close> takes three arguments, the two
  polygons and the matrix that receives the result, and returns the success flag alone:
  \<^verbatim>\<open>quadToQuad(one, two, result) -> bool\<close>. The program calls it with the two polygons
  only, \<^verbatim>\<open>ok, t = QTransform.quadToQuad(src_poly, dst_poly)\<close>. A call with two arguments
  is rejected by the binding with a \<^verbatim>\<open>TypeError\<close>, whatever the polygons are, so no pair
  \<^verbatim>\<open>ok, t\<close> is ever returned.
\<close>

definition quadToQuad :: "point list \<Rightarrow> point list \<Rightarrow> py_error + bool \<times> QTransform" where
  "quadToQuad one two = Inl TypeError"

subsection \<open>TransformableRectItem\<close>

text \<open>
  The state of one item. The first five fields are the properties the library keeps for
  a rectangle item: its rectangle in item coordinates, its position in the scene, its
  rotation in degrees, its own 3x3 matrix, and whether it is selected. The library keeps
  the rotation and the matrix apart: \<^verbatim>\<open>setRotation\<close> writes the one, \<^verbatim>\<open>setTransform\<close>
  the other, and \<^verbatim>\<open>transform()\<close> reads the matrix alone. The remaining fields are the
  attributes set in \<^verbatim>\<open>__init__\<close>.
\<close>

record TransformableRectItem =
  rect :: QRectF
  pos :: point
  rotation :: real
  transform :: QTransform
  selected :: bool
  handle_size :: real
  handles :: "(string \<times> QRectF) list"
  handle_selected :: "string option"
  transform_mode :: string
  original_rect :: QRectF
  original_corners :: "point list"

definition corners_of :: "QRectF \<Rightarrow> point list" where
  "corners_of r = [topLeft r, topRight r, bottomRight r, bottomLeft r]"

text \<open>\<^verbatim>\<open>__init__(rect)\<close>; a fresh item sits at the scene origin, unrotated, with the
  identity matrix and not selected.\<close>

definition init_item :: "QRectF \<Rightarrow> TransformableRectItem" where
  "init_item r =
     \<lparr>rect = r, pos = (0, 0), rotation = 0,
      transform = identity, selected = False,
      handle_size = 8, handles = [], handle_selected = None,
      transform_mode = ''translation'',
      original_rect = r, original_corners = corners_of r\<rparr>"

definition handle_rect :: "real \<Rightarrow> point \<Rightarrow> QRectF" where
  "handle_rect s p = QRectF_sized (fst p - s / 2, snd p - s / 2) (s, s)"

definition update_handles :: "TransformableRectItem \<Rightarrow> TransformableRectItem" where
  "update_handles it =
     (let s = handle_size it;
          r = rect it;
          hs0 = [];
          hs1 = (if transform_mode it \<in> set [''scaling'', ''affine'', ''perspective'']
                 then hs0 @ [(''top_left'', handle_rect s (topLeft r)),
                             (''top_right'', handle_rect s (topRight r)),
                             (''bottom_left'', handle_rect s (bottomLeft r)),
                             (''bottom_right'', handle_rect s (bottomRight r))]
                 else hs0);
          hs2 = (if transform_mode it = ''rotation''
                 then (let center_top = ((fst (topLeft r) + fst (topRight r)) / 2, top_y r - 20)
                       in hs1 @ [(''rotate'', handle_rect s center_top)])
                 else hs1)
      in it\<lparr>handles := hs2\<rparr>)"

text \<open>\<^verbatim>\<open>paint\<close>, as far as the state goes: a selected item recomputes its handles
  whenever it is drawn.\<close>

definition paint :: "TransformableRectItem \<Rightarrow> TransformableRectItem" where
  "paint it = (if selected it then update_handles it else it)"

text \<open>
  A mouse event as an item receives it: the pointer in item coordinates, whether the left
  button is the one concerned, and the displacement of the pointer in the scene since the
  previous event.
\<close>

record mouse_event =
  ev_pos :: point
  ev_left :: bool
  ev_move :: point

text \<open>
  The handlers of the library's base class, as far as they touch the state of this item:
  a left press selects the item, a move with the left button held carries a movable item
  along with the pointer (every item of the program is created movable and selectable),
  a release changes nothing.
\<close>

definition super_mousePressEvent :: "mouse_event \<Rightarrow> TransformableRectItem \<Rightarrow> TransformableRectItem" where
  "super_mousePressEvent e it = (if ev_left e then it\<lparr>selected := True\<rparr> else it)"

definition super_mouseMoveEvent :: "mouse_event \<Rightarrow> TransformableRectItem \<Rightarrow> TransformableRectItem" where
  "super_mouseMoveEvent e it =
     (if ev_left e then it\<lparr>pos := (fst (pos it) + fst (ev_move e), snd (pos it) + snd (ev_move e))\<rparr>
      else it)"

definition super_mouseReleaseEvent :: "mouse_event \<Rightarrow> TransformableRectItem \<Rightarrow> TransformableRectItem" where
  "super_mouseReleaseEvent e it = it"

text \<open>The loop over the handles in \<^verbatim>\<open>mousePressEvent\<close>: the first handle that contains the point.\<close>

fun first_handle :: "(string \<times> QRectF) list \<Rightarrow> point \<Rightarrow> string option \<Rightarrow> string option" where
  "first_handle [] p sel = sel"
| "first_handle ((handle, r) # hs) p sel =
     (if contains r p then Some handle else first_handle hs p sel)"

definition mousePressEvent :: "mouse_event \<Rightarrow> TransformableRectItem \<Rightarrow> TransformableRectItem" where
  "mousePressEvent e it =
     super_mousePressEvent e
       (if selected it
        then it\<lparr>handle_selected := first_handle (handles it) (ev_pos e) None\<rparr>
        else it)"

definition resize_item :: "point \<Rightarrow> TransformableRectItem \<Rightarrow> TransformableRectItem" where
  "resize_item p it =
     (let r = rect it;
          r' = (if handle_selected it = Some ''top_left'' then setTopLeft p r
                else if handle_selected it = Some ''top_right'' then setTopRight p r
                else if handle_selected it = Some ''bottom_left'' then setBottomLeft p r
                else if handle_selected it = Some ''bottom_right'' then setBottomRight p r
                else r)
      in update_handles (it\<lparr>rect := r'\<rparr>))"

definition rotate_item :: "point \<Rightarrow> TransformableRectItem \<Rightarrow> TransformableRectItem" where
  "rotate_item p it = it\<lparr>rotation := - angle (center (rect it)) p\<rparr>"

definition index_map :: "string \<Rightarrow> nat option" where
  "index_map = map_of [(''top_left'', 0), (''top_right'', 1), (''bottom_right'', 2), (''bottom_left'', 3)]"

text \<open>
  \<^verbatim>\<open>affine_transform_item\<close>. A handle that is \<^verbatim>\<open>None\<close> or not a corner leaves the item
  as it is. Writing past the end of the copied corner list is Python's \<^verbatim>\<open>IndexError\<close>.
  An exception of the call to \<^verbatim>\<open>quadToQuad\<close> leaves the method before \<^verbatim>\<open>if ok:\<close> is
  reached.
\<close>

definition affine_transform_item ::
  "point \<Rightarrow> TransformableRectItem \<Rightarrow> py_error + TransformableRectItem" where
  "affine_transform_item p it =
     (case handle_selected it of
        None \<Rightarrow> Inr it
      | Some handle \<Rightarrow>
          (case index_map handle of
             None \<Rightarrow> Inr it
           | Some k \<Rightarrow>
               if k < length (original_corners it)
               then (let new_corners = (original_corners it)[k := p];
                         src_poly = original_corners it;
                         dst_poly = new_corners
                     in case quadToQuad src_poly dst_poly of
                          Inl err \<Rightarrow> Inl err
                        | Inr (ok, t) \<Rightarrow> if ok then Inr (it\<lparr>transform := t\<rparr>) else Inr it)
               else Inl IndexError))"

text \<open>\<^verbatim>\<open>if self.handle_selected:\<close> is false for \<^verbatim>\<open>None\<close> and for the empty string.\<close>

definition truthy :: "string option \<Rightarrow> bool" where
  "truthy h = (case h of None \<Rightarrow> False | Some n \<Rightarrow> n \<noteq> [])"

definition mouseMoveEvent ::
  "mouse_event \<Rightarrow> TransformableRectItem \<Rightarrow> py_error + TransformableRectItem" where
  "mouseMoveEvent e it =
     (if truthy (handle_selected it)
      then (if transform_mode it = ''scaling'' then Inr (resize_item (ev_pos e) it)
            else if transform_mode it = ''rotation'' then Inr (rotate_item (ev_pos e) it)
            else if transform_mode it \<in> set [''affine'', ''perspective'']
                 then affine_transform_item (ev_pos e) it
            else Inr (super_mouseMoveEvent e it))
      else Inr (super_mouseMoveEvent e it))"

definition mouseReleaseEvent :: "mouse_event \<Rightarrow> TransformableRectItem \<Rightarrow> TransformableRectItem" where
  "mouseReleaseEvent e it =
     (let it1 = super_mouseReleaseEvent e (it\<lparr>handle_selected := None\<rparr>)
      in it1\<lparr>original_rect := rect it1, original_corners := corners_of (rect it1)\<rparr>)"

subsection \<open>JSON values\<close>

text \<open>
  The Python value that \<^verbatim>\<open>json.load\<close> returns and \<^verbatim>\<open>json.dump\<close> takes. An object is
  the list of the items of a Python dictionary, in order, with distinct keys.
\<close>

datatype json =
    JNull
  | JBool bool
  | JNum real
  | JStr string
  | JArr "json list"
  | JObj "(string \<times> json) list"

definition bind :: "py_error + 'a \<Rightarrow> ('a \<Rightarrow> py_error + 'b) \<Rightarrow> py_error + 'b" where
  "bind m f = (case m of Inl e \<Rightarrow> Inl e | Inr v \<Rightarrow> f v)"

text \<open>\<^verbatim>\<open>value[key]\<close> with a string key.\<close>

fun subscript :: "json \<Rightarrow> string \<Rightarrow> py_error + json" where
  "subscript (JObj kvs) key = (case map_of kvs key of None \<Rightarrow> Inl (KeyError key) | Some v \<Rightarrow> Inr v)"
| "subscript v key = Inl TypeError"

text \<open>\<^verbatim>\<open>for rect_data in rects\<close>: a list gives its elements, a dictionary its keys, a string
  its characters; nothing else can be iterated.\<close>

fun iterate :: "json \<Rightarrow> py_error + json list" where
  "iterate (JArr xs) = Inr xs"
| "iterate (JObj kvs) = Inr (map (\<lambda>kv. JStr (fst kv)) kvs)"
| "iterate (JStr cs) = Inr (map (\<lambda>c. JStr [c]) cs)"
| "iterate v = Inl TypeError"

text \<open>A number where the library expects a floating-point argument; a Python boolean is
  the integer 0 or 1.\<close>

fun as_float :: "json \<Rightarrow> py_error + real" where
  "as_float (JNum a) = Inr a"
| "as_float (JBool b) = Inr (if b then 1 else 0)"
| "as_float v = Inl TypeError"

subsection \<open>MainWindow\<close>

text \<open>
  \<open>scene\<close> lists the items in the order they were added. \<open>current_rect\<close> is \<^verbatim>\<open>None\<close> or
  a reference to an item of the scene, modelled as the index of the item; once the scene
  has been cleared, a reference that is still held refers to a deleted object.
  \<open>start_pos\<close> is an attribute that exists only once a draw gesture has begun.
\<close>

datatype item_ref = PyNone | Item nat | DeletedItem

record MainWindow =
  scene :: "TransformableRectItem list"
  current_rect :: item_ref
  drawing :: bool
  win_transform_mode :: string
  start_pos :: "point option"

definition init_window :: MainWindow where
  "init_window =
     \<lparr>scene = [], current_rect = PyNone, drawing = False,
      win_transform_mode = ''translation'', start_pos = None\<rparr>"

definition addItem :: "TransformableRectItem \<Rightarrow> MainWindow \<Rightarrow> MainWindow" where
  "addItem it w = w\<lparr>scene := scene w @ [it]\<rparr>"

text \<open>\<^verbatim>\<open>self.scene.clear()\<close> removes and deletes every item of the scene.\<close>

definition scene_clear :: "MainWindow \<Rightarrow> MainWindow" where
  "scene_clear w =
     w\<lparr>scene := [],
       current_rect := (case current_rect w of Item k \<Rightarrow> DeletedItem | r \<Rightarrow> r)\<rparr>"

text \<open>
  \<^verbatim>\<open>self.scene.items()\<close> returns the items in descending stacking order, and items that
  were added later are stacked above the earlier ones: the item added last comes first.
  (\<^verbatim>\<open>item_at\<close> relies on the same order when it takes \<^verbatim>\<open>items[0]\<close> as the top-most item.)
\<close>

definition scene_items :: "MainWindow \<Rightarrow> TransformableRectItem list" where
  "scene_items w = rev (scene w)"

text \<open>\<^verbatim>\<open>set_transform_mode\<close>: every item of the scene is a \<^verbatim>\<open>TransformableRectItem\<close>; each is
  updated in place, so the scene keeps its order.\<close>

definition set_transform_mode :: "string \<Rightarrow> MainWindow \<Rightarrow> MainWindow" where
  "set_transform_mode mode w =
     w\<lparr>win_transform_mode := mode,
       scene := map (\<lambda>it. update_handles (it\<lparr>transform_mode := mode\<rparr>)) (scene w)\<rparr>"

text \<open>
  A mouse event as the window receives it: the pointer mapped to the scene, whether the
  button is the left one, and whether \<^verbatim>\<open>item_at\<close> finds an item under the pointer.
\<close>

record window_event =
  wev_scene_pos :: point
  wev_left :: bool
  wev_item_at :: bool

definition MainWindow_mousePressEvent :: "window_event \<Rightarrow> MainWindow \<Rightarrow> MainWindow" where
  "MainWindow_mousePressEvent e w =
     (if \<not> wev_item_at e \<and> wev_left e
      then (let p = wev_scene_pos e;
                it = (init_item (QRectF_points p p))\<lparr>transform_mode := win_transform_mode w\<rparr>
            in (addItem it w)\<lparr>start_pos := Some p,
                              current_rect := Item (length (scene w)),
                              drawing := True\<rparr>)
      else w)"

text \<open>
  In the next two handlers a missing \<^verbatim>\<open>start_pos\<close> is Python's \<^verbatim>\<open>AttributeError\<close>, and
  calling a method of a deleted item is the \<^verbatim>\<open>RuntimeError\<close> of the library binding. A
  reference is true in a condition unless it is \<^verbatim>\<open>None\<close>.
\<close>

definition MainWindow_mouseMoveEvent :: "window_event \<Rightarrow> MainWindow \<Rightarrow> py_error + MainWindow" where
  "MainWindow_mouseMoveEvent e w =
     (if drawing w \<and> current_rect w \<noteq> PyNone
      then (case start_pos w of
              None \<Rightarrow> Inl AttributeError
            | Some sp \<Rightarrow>
                (let r = normalized (QRectF_points sp (wev_scene_pos e))
                 in case current_rect w of
                      Item k \<Rightarrow>
                        if k < length (scene w)
                        then Inr (w\<lparr>scene := (scene w)[k := (scene w ! k)\<lparr>rect := r\<rparr>]\<rparr>)
                        else Inl RuntimeError
                    | DeletedItem \<Rightarrow> Inl RuntimeError
                    | PyNone \<Rightarrow> Inr w))
      else Inr w)"

definition MainWindow_mouseReleaseEvent :: "window_event \<Rightarrow> MainWindow \<Rightarrow> py_error + MainWindow" where
  "MainWindow_mouseReleaseEvent e w =
     (if wev_left e \<and> drawing w
      then (case current_rect w of
              PyNone \<Rightarrow> Inr (w\<lparr>drawing := False\<rparr>)
            | Item k \<Rightarrow>
                if k < length (scene w)
                then (let it1 = (update_handles (scene w ! k))\<lparr>selected := True\<rparr>;
                          it2 = it1\<lparr>original_rect := rect it1,
                                    original_corners := corners_of (rect it1)\<rparr>
                      in Inr (w\<lparr>drawing := False, scene := (scene w)[k := it2],
                                current_rect := PyNone\<rparr>))
                else Inl RuntimeError
            | DeletedItem \<Rightarrow> Inl RuntimeError)
      else Inr w)"

subsection \<open>Saving\<close>

definition serialize_item :: "TransformableRectItem \<Rightarrow> json" where
  "serialize_item it =
     (let r = rect it; t = transform it
      in JObj [(''x'', JNum (rx r)),
               (''y'', JNum (ry r)),
               (''width'', JNum (rwidth r)),
               (''height'', JNum (rheight r)),
               (''transform'',
                 JObj [(''m11'', JNum (m11 t)), (''m12'', JNum (m12 t)), (''m13'', JNum (m13 t)),
                       (''m21'', JNum (m21 t)), (''m22'', JNum (m22 t)), (''m23'', JNum (m23 t)),
                       (''m31'', JNum (m31 t)), (''m32'', JNum (m32 t)), (''m33'', JNum (m33 t))])])"

text \<open>
  \<^verbatim>\<open>save_rectangles\<close>: the document handed to \<^verbatim>\<open>json.dump\<close>, or nothing when the file
  dialog returns an empty name.
\<close>

definition save_rectangles :: "string \<Rightarrow> MainWindow \<Rightarrow> json option" where
  "save_rectangles filename w =
     (if filename \<noteq> [] then Some (JArr (map serialize_item (scene_items w))) else None)"

subsection \<open>Loading\<close>

text \<open>The body of the loop of \<^verbatim>\<open>load_rectangles\<close> up to \<^verbatim>\<open>addItem\<close>: the item built from one
  entry of the document. The subscripts of a call are evaluated before the call converts
  its arguments.\<close>

definition load_item :: "string \<Rightarrow> json \<Rightarrow> py_error + TransformableRectItem" where
  "load_item mode rect_data =
     bind (subscript rect_data ''x'') (\<lambda>jx.
     bind (subscript rect_data ''y'') (\<lambda>jy.
     bind (subscript rect_data ''width'') (\<lambda>jw.
     bind (subscript rect_data ''height'') (\<lambda>jh.
     bind (as_float jx) (\<lambda>x.
     bind (as_float jy) (\<lambda>y.
     bind (as_float jw) (\<lambda>w.
     bind (as_float jh) (\<lambda>h.
     bind (subscript rect_data ''transform'') (\<lambda>transform_data.
     bind (subscript transform_data ''m11'') (\<lambda>j11.
     bind (subscript transform_data ''m12'') (\<lambda>j12.
     bind (subscript transform_data ''m13'') (\<lambda>j13.
     bind (subscript transform_data ''m21'') (\<lambda>j21.
     bind (subscript transform_data ''m22'') (\<lambda>j22.
     bind (subscript transform_data ''m23'') (\<lambda>j23.
     bind (subscript transform_data ''m31'') (\<lambda>j31.
     bind (subscript transform_data ''m32'') (\<lambda>j32.
     bind (subscript transform_data ''m33'') (\<lambda>j33.
     bind (as_float j11) (\<lambda>a11.
     bind (as_float j12) (\<lambda>a12.
     bind (as_float j13) (\<lambda>a13.
     bind (as_float j21) (\<lambda>a21.
     bind (as_float j22) (\<lambda>a22.
     bind (as_float j23) (\<lambda>a23.
     bind (as_float j31) (\<lambda>a31.
     bind (as_float j32) (\<lambda>a32.
     bind (as_float j33) (\<lambda>a33.
       Inr (update_handles
              ((init_item (QRectF_xywh x y w h))
                 \<lparr>transform := QTransform_of a11 a12 a13 a21 a22 a23 a31 a32 a33,
                  transform_mode := mode\<rparr>))
     )))))))))))))))))))))))))))"

text \<open>The loop: items are added one by one, and an exception leaves the scene with the
  items added so far.\<close>

fun load_loop :: "json list \<Rightarrow> MainWindow \<Rightarrow> py_error option \<times> MainWindow" where
  "load_loop [] w = (None, w)"
| "load_loop (rect_data # rest) w =
     (case load_item (win_transform_mode w) rect_data of
        Inl e \<Rightarrow> (Some e, w)
      | Inr it \<Rightarrow> load_loop rest (addItem it w))"

text \<open>
  \<^verbatim>\<open>load_rectangles\<close>. \<open>file\<close> is the outcome of opening the chosen file and parsing it
  with \<^verbatim>\<open>json.load\<close>: an exception or the parsed value. The result is the exception shown
  in the message box, if any, and the window afterwards.
\<close>

definition load_rectangles ::
  "string \<Rightarrow> py_error + json \<Rightarrow> MainWindow \<Rightarrow> py_error option \<times> MainWindow" where
  "load_rectangles filename file w =
     (if filename \<noteq> []
      then (case file of
              Inl e \<Rightarrow> (Some e, w)
            | Inr rects \<Rightarrow>
                (let w1 = scene_clear w
                 in case iterate rects of
                      Inl e \<Rightarrow> (Some e, w1)
                    | Inr elems \<Rightarrow> load_loop elems w1))
      else (None, w))"

subsection \<open>Example states\<close>

text \<open>
  A 100 by 50 rectangle at the origin, selected, with the handles of a given mode, and the
  same item after the left button went down at a point.
\<close>

definition ex_rect :: QRectF where
  "ex_rect = QRectF_xywh 0 0 100 50"

definition ex_event :: "point \<Rightarrow> mouse_event" where
  "ex_event p = \<lparr>ev_pos = p, ev_left = True, ev_move = (0, 0)\<rparr>"

definition ex_selected :: "string \<Rightarrow> TransformableRectItem" where
  "ex_selected mode = update_handles ((init_item ex_rect)\<lparr>transform_mode := mode, selected := True\<rparr>)"

definition ex_pressed :: "string \<Rightarrow> point \<Rightarrow> TransformableRectItem" where
  "ex_pressed mode p = mousePressEvent (ex_event p) (ex_selected mode)"

text \<open>A window with one shape, a second shape, and a document entry without \<^verbatim>\<open>"width"\<close>.\<close>

definition ex_window :: MainWindow where
  "ex_window = addItem (init_item ex_rect) init_window"

definition ex_small :: TransformableRectItem where
  "ex_small = init_item (QRectF_xywh 5 5 20 20)"

definition ex_bad_record :: json where
  "ex_bad_record =
     JObj [(''x'', JNum 1), (''y'', JNum 2), (''height'', JNum 4),
           (''transform'',
             JObj [(''m11'', JNum 1), (''m12'', JNum 0), (''m13'', JNum 0),
                   (''m21'', JNum 0), (''m22'', JNum 1), (''m23'', JNum 0),
                   (''m31'', JNum 0), (''m32'', JNum 0), (''m33'', JNum 1)])]"

section \<open>Properties\<close>

subsection \<open>Basic facts\<close>

lemma QRectF_xywh_fields [simp]:
  "rx (QRectF_xywh x y w h) = x" "ry (QRectF_xywh x y w h) = y"
  "rwidth (QRectF_xywh x y w h) = w" "rheight (QRectF_xywh x y w h) = h"
  by (simp_all add: QRectF_xywh_def)

lemma QRectF_xywh_eta: "QRectF_xywh (rx r) (ry r) (rwidth r) (rheight r) = r"
  by (simp add: QRectF_xywh_def)

lemma QTransform_of_fields [simp]:
  "m11 (QTransform_of a b c d e f g h i) = a" "m12 (QTransform_of a b c d e f g h i) = b"
  "m13 (QTransform_of a b c d e f g h i) = c" "m21 (QTransform_of a b c d e f g h i) = d"
  "m22 (QTransform_of a b c d e f g h i) = e" "m23 (QTransform_of a b c d e f g h i) = f"
  "m31 (QTransform_of a b c d e f g h i) = g" "m32 (QTransform_of a b c d e f g h i) = h"
  "m33 (QTransform_of a b c d e f g h i) = i"
  by (simp_all add: QTransform_of_def)

lemma QTransform_of_eta:
  "QTransform_of (m11 t) (m12 t) (m13 t) (m21 t) (m22 t) (m23 t) (m31 t) (m32 t) (m33 t) = t"
  by (simp add: QTransform_of_def)

lemmas corner_defs = topLeft_def topRight_def bottomLeft_def bottomRight_def
lemmas ex_defs =
  ex_pressed_def ex_selected_def ex_event_def mousePressEvent_def super_mousePressEvent_def
  update_handles_def init_item_def ex_rect_def handle_rect_def QRectF_sized_def contains_def
  corners_of_def corner_defs top_y_def Let_def

text \<open>The example item is what the program builds, and a press picks the handle under
  the pointer.\<close>

lemma ex_pressed_corners:
  "original_corners (ex_pressed mode p) = [(0, 0), (100, 0), (100, 50), (0, 50)]"
  by (simp add: ex_defs)

lemma ex_pressed_mode: "transform_mode (ex_pressed mode p) = mode"
  by (simp add: ex_defs)

lemma ex_pressed_top_left: "handle_selected (ex_pressed ''affine'' (0, 0)) = Some ''top_left''"
  by (simp add: ex_defs)


lemma ex_pressed_transform: "transform (ex_pressed mode p) = identity"
  by (simp add: ex_defs)

lemma ex_pressed_top_right: "handle_selected (ex_pressed ''affine'' (100, 0)) = Some ''top_right''"
  by (simp add: ex_defs)

lemma ex_pressed_bottom_right:
  "handle_selected (ex_pressed ''scaling'' (100, 50)) = Some ''bottom_right''"
  by (simp add: ex_defs)

lemma ex_pressed_rotate: "handle_selected (ex_pressed ''rotation'' (50, -20)) = Some ''rotate''"
  by (simp add: ex_defs)

lemma index_map_nonempty: "index_map handle = Some k \<Longrightarrow> handle \<noteq> []"
  by (auto simp: index_map_def)

subsection \<open>Loading one entry and many\<close>

lemma load_item_serialize:
  "load_item mode (serialize_item it)
   = Inr (update_handles ((init_item (rect it))\<lparr>transform := transform it, transform_mode := mode\<rparr>))"
  by (simp add: load_item_def serialize_item_def bind_def Let_def QRectF_xywh_eta QTransform_of_eta)

lemma load_item_bad_record: "load_item mode ex_bad_record = Inl (KeyError ''width'')"
  by (simp add: load_item_def ex_bad_record_def bind_def)

lemma load_loop_append:
  "map (load_item (win_transform_mode w)) ds = map Inr its \<Longrightarrow>
   load_loop (ds @ rest) w = load_loop rest (w\<lparr>scene := scene w @ its\<rparr>)"
proof (induction ds arbitrary: w its)
  case Nil
  then show ?case by simp
next
  case (Cons d ds)
  then obtain i is' where its: "its = i # is'"
    and d: "load_item (win_transform_mode w) d = Inr i"
    and ds: "map (load_item (win_transform_mode w)) ds = map Inr is'"
    by (cases its) auto
  have "load_loop ((d # ds) @ rest) w = load_loop (ds @ rest) (addItem i w)"
    using d by simp
  also have "\<dots> = load_loop rest ((addItem i w)\<lparr>scene := scene (addItem i w) @ is'\<rparr>)"
    using Cons.IH[of "addItem i w" is'] ds by (simp add: addItem_def)
  finally show ?case by (simp add: its addItem_def)
qed

lemma scene_foldl_addItem: "scene (foldl (\<lambda>w it. addItem it w) w its) = scene w @ its"
  by (induction its arbitrary: w) (simp_all add: addItem_def)

section \<open>The claims\<close>

subsection \<open>C1: a failed load\<close>

text \<open>
  C1, as amended. The claim is that every failed load leaves the collection as it was.
  That holds when the failure is in opening or parsing the file: the scene is not touched.
  When the failure is in an entry of the parsed document (a missing \<^verbatim>\<open>"width"\<close>, say),
  the scene has been cleared before the loop starts, and the items built from the entries
  ahead of the failing one have been added: these, and nothing else, are the collection
  afterwards.
\<close>

theorem load_failure_effect:
  assumes "map (load_item (win_transform_mode w)) pre = map Inr its"
    and "load_item (win_transform_mode w) bad = Inl e"
  shows "load_rectangles (c # cs) (Inl e') w = (Some e', w)
       \<and> load_rectangles (c # cs) (Inr (JArr (pre @ bad # post))) w
           = (Some e, (scene_clear w)\<lparr>scene := its\<rparr>)"
proof -
  have "load_loop (pre @ bad # post) (scene_clear w)
        = load_loop (bad # post) ((scene_clear w)\<lparr>scene := its\<rparr>)"
    using load_loop_append[of "scene_clear w" pre its "bad # post"] assms(1)
    by (simp add: scene_clear_def)
  then show ?thesis
    using assms(2) by (simp add: load_rectangles_def scene_clear_def)
qed

text \<open>An instance: one good entry and then the entry without \<^verbatim>\<open>"width"\<close>, loaded into
  the window that holds the 100 by 50 shape.\<close>

theorem load_failure_effect_witness:
  "map (load_item (win_transform_mode ex_window)) [serialize_item ex_small]
     = map Inr [update_handles (ex_small\<lparr>transform_mode := ''translation''\<rparr>)]
   \<and> load_item (win_transform_mode ex_window) ex_bad_record = Inl (KeyError ''width'')
   \<and> load_rectangles ''shapes.json'' (Inl JSONDecodeError) ex_window
       = (Some JSONDecodeError, ex_window)
   \<and> load_rectangles ''shapes.json'' (Inr (JArr ([serialize_item ex_small] @ ex_bad_record # [])))
        ex_window
       = (Some (KeyError ''width''),
          (scene_clear ex_window)
            \<lparr>scene := [update_handles (ex_small\<lparr>transform_mode := ''translation''\<rparr>)]\<rparr>)"
proof -
  have m: "win_transform_mode ex_window = ''translation''"
    by (simp add: ex_window_def addItem_def init_window_def)
  have pre: "map (load_item (win_transform_mode ex_window)) [serialize_item ex_small]
     = map Inr [update_handles (ex_small\<lparr>transform_mode := ''translation''\<rparr>)]"
    by (simp add: m load_item_serialize ex_small_def init_item_def)
  have bad: "load_item (win_transform_mode ex_window) ex_bad_record = Inl (KeyError ''width'')"
    by (rule load_item_bad_record)
  show ?thesis
    using pre bad
      load_failure_effect [OF pre bad, of "CHR ''s''" "''hapes.json''" JSONDecodeError "[]"]
    by simp
qed

text \<open>The claim as stated fails: the entry without \<^verbatim>\<open>"width"\<close> makes the load fail, and
  the shape that was in the window is gone.\<close>

theorem load_missing_width_clears_scene:
  "fst (load_rectangles ''shapes.json'' (Inr (JArr [ex_bad_record])) ex_window)
     = Some (KeyError ''width'')
   \<and> scene (snd (load_rectangles ''shapes.json'' (Inr (JArr [ex_bad_record])) ex_window)) = []
   \<and> scene ex_window = [init_item ex_rect]"
proof -
  have s: "scene ex_window = [init_item ex_rect]"
    by (simp add: ex_window_def addItem_def init_window_def)
  show ?thesis
    by (simp add: s load_rectangles_def load_item_bad_record scene_clear_def)
qed

subsection \<open>C2: the order of the saved entries\<close>

text \<open>
  C2, as amended. The claim is that the saved array lists the shapes in the order they
  were inserted. The program walks \<^verbatim>\<open>self.scene.items()\<close>, which lists the items from the
  top of the stack down: the saved array lists the shapes in the reverse of the order they
  were inserted, the shape created last being the first entry.
\<close>

theorem save_emits_reverse_insertion_order:
  "save_rectangles (c # cs) (foldl (\<lambda>w it. addItem it w) (w\<lparr>scene := []\<rparr>) its)
   = Some (JArr (rev (map serialize_item its)))"
  by (simp add: save_rectangles_def scene_items_def scene_foldl_addItem rev_map)

text \<open>The claim as stated fails: of two shapes, the first-created one is the second entry.\<close>

theorem save_first_entry_is_last_created:
  "save_rectangles ''shapes.json'' (addItem ex_small (addItem (init_item ex_rect) init_window))
     = Some (JArr [serialize_item ex_small, serialize_item (init_item ex_rect)])
   \<and> serialize_item ex_small \<noteq> serialize_item (init_item ex_rect)"
  by (simp add: save_rectangles_def scene_items_def addItem_def init_window_def
      serialize_item_def ex_small_def ex_rect_def init_item_def)

subsection \<open>C3: saving and loading again\<close>

text \<open>
  C3. Saving a window and loading the saved document (into any window) succeeds, and the
  loaded shapes have the rectangles and the matrices of the saved ones: the same
  rectangle and matrix pairs, as many times each. (Their order in the scene is the
  reverse of what it was.) Numbers pass through the document unchanged.
\<close>

theorem save_load_roundtrip:
  "\<exists>doc w''. save_rectangles (d # ds) w = Some doc
     \<and> load_rectangles (c # cs) (Inr doc) w' = (None, w'')
     \<and> mset (map (\<lambda>it. (rect it, transform it)) (scene w''))
         = mset (map (\<lambda>it. (rect it, transform it)) (scene w))
     \<and> map (\<lambda>it. (rect it, transform it)) (scene w'')
         = rev (map (\<lambda>it. (rect it, transform it)) (scene w))"
proof -
  let ?m = "win_transform_mode w'"
  let ?f = "\<lambda>it. update_handles ((init_item (rect it))\<lparr>transform := transform it, transform_mode := ?m\<rparr>)"
  let ?g = "\<lambda>it::TransformableRectItem. (rect it, transform it)"
  let ?its = "map ?f (rev (scene w))"
  have "map (load_item (win_transform_mode (scene_clear w'))) (map serialize_item (rev (scene w)))
        = map Inr ?its"
    by (simp add: load_item_serialize scene_clear_def)
  from load_loop_append[OF this, of "[]"]
  have l: "load_loop (map serialize_item (rev (scene w))) (scene_clear w')
           = (None, (scene_clear w')\<lparr>scene := ?its\<rparr>)"
    by (simp add: scene_clear_def)
  have g: "?g (?f it) = ?g it" for it
    by (simp add: update_handles_def init_item_def Let_def)
  have m: "map ?g ?its = rev (map ?g (scene w))"
    by (simp add: rev_map comp_def g)
  have "load_rectangles (c # cs) (Inr (JArr (map serialize_item (scene_items w)))) w'
        = (None, (scene_clear w')\<lparr>scene := ?its\<rparr>)"
    using l by (simp add: load_rectangles_def scene_items_def)
  moreover have "mset (map ?g ?its) = mset (map ?g (scene w))"
    unfolding m by simp
  ultimately show ?thesis
    using m
    by (intro exI[of _ "JArr (map serialize_item (scene_items w))"] exI[of _ "(scene_clear w')\<lparr>scene := ?its\<rparr>"])
       (simp add: save_rectangles_def)
qed

subsection \<open>C4: the matrix of an affine or perspective drag\<close>

text \<open>
  A move of the pointer in mode affine or perspective with a corner handle active ends in
  the \<^verbatim>\<open>TypeError\<close> of the call to \<^verbatim>\<open>quadToQuad\<close>, whatever the pointer position.
\<close>

lemma corner_drag_raises:
  assumes "transform_mode it = ''affine'' \<or> transform_mode it = ''perspective''"
    and "handle_selected it = Some handle"
    and "index_map handle = Some k"
    and "k < length (original_corners it)"
  shows "mouseMoveEvent e it = Inl TypeError"
proof -
  have "handle \<noteq> []"
    using assms(3) by (rule index_map_nonempty)
  then show ?thesis
    using assms
    by (auto simp: mouseMoveEvent_def affine_transform_item_def truthy_def quadToQuad_def)
qed

text \<open>
  C4. The claim is that such a move sets the matrix of the item to the solution of the
  quad-to-quad correspondence, and that with corners \<open>(0,0), (100,0), (100,50), (0,50)\<close>
  and the top-left handle dragged to \<open>(-20, -10)\<close> the new matrix takes \<open>(0,0)\<close> to
  \<open>(-20,-10)\<close>. The program attempts this and fails at the call of the solver: in the
  scenario the handler ends in a \<^verbatim>\<open>TypeError\<close>, and the matrix of the item, the identity,
  is never replaced.
\<close>

theorem affine_drag_scenario_raises:
  "transform_mode (ex_pressed ''affine'' (0, 0)) = ''affine''
   \<and> handle_selected (ex_pressed ''affine'' (0, 0)) = Some ''top_left''
   \<and> original_corners (ex_pressed ''affine'' (0, 0)) = [(0, 0), (100, 0), (100, 50), (0, 50)]
   \<and> transform (ex_pressed ''affine'' (0, 0)) = identity
   \<and> mouseMoveEvent (ex_event (- 20, - 10)) (ex_pressed ''affine'' (0, 0)) = Inl TypeError"
  by (simp add: ex_pressed_mode ex_pressed_top_left ex_pressed_corners ex_pressed_transform
      mouseMoveEvent_def affine_transform_item_def truthy_def index_map_def quadToQuad_def)

subsection \<open>C5: a solve without a solution\<close>

text \<open>
  C5. The claim is that a move for which the correspondence is degenerate returns
  normally and leaves the matrix as it was. The program has the guard \<^verbatim>\<open>if ok:\<close> for this
  and never reaches it: with the top-right corner of the 100 by 50 rectangle dragged to
  \<open>(50, 50)\<close>, on the line through the bottom-right and bottom-left corners, the handler
  ends in the \<^verbatim>\<open>TypeError\<close> of the call of the solver.
\<close>

theorem degenerate_drag_raises:
  "transform_mode (ex_pressed ''affine'' (100, 0)) = ''affine''
   \<and> handle_selected (ex_pressed ''affine'' (100, 0)) = Some ''top_right''
   \<and> original_corners (ex_pressed ''affine'' (100, 0)) = [(0, 0), (100, 0), (100, 50), (0, 50)]
   \<and> mouseMoveEvent (ex_event (50, 50)) (ex_pressed ''affine'' (100, 0)) = Inl TypeError"
  by (simp add: ex_pressed_mode ex_pressed_top_right ex_pressed_corners
      mouseMoveEvent_def affine_transform_item_def truthy_def index_map_def quadToQuad_def)

subsection \<open>C6: the sign of the width and the height\<close>

text \<open>
  The draw gesture normalises the rectangle at every step, so its width and height
  are never negative there.
\<close>

lemma normalized_nonnegative: "0 \<le> rwidth (normalized r) \<and> 0 \<le> rheight (normalized r)"
  by (simp add: normalized_def Let_def)

lemma draw_step_nonnegative:
  assumes "MainWindow_mouseMoveEvent e w = Inr w'" and "drawing w" and "current_rect w = Item k"
  shows "0 \<le> rwidth (rect (scene w' ! k)) \<and> 0 \<le> rheight (rect (scene w' ! k))"
  using assms normalized_nonnegative
  by (auto simp: MainWindow_mouseMoveEvent_def Let_def split: option.splits if_splits)

text \<open>
  C6. The claim is that width and height are non-negative after every operation that
  resizes the rectangle, a corner drag in scaling mode included. The corner drag does not
  normalise: on the 100 by 50 rectangle, the bottom-right handle dragged to \<open>(-10, -10)\<close>,
  past the top-left corner, leaves a rectangle of width \<open>-10\<close> and height \<open>-10\<close>.
\<close>

theorem resize_gives_negative_size:
  "handle_selected (ex_pressed ''scaling'' (100, 50)) = Some ''bottom_right''
   \<and> rect (ex_pressed ''scaling'' (100, 50)) = QRectF_xywh 0 0 100 50
   \<and> map_sum id rect (mouseMoveEvent (ex_event (- 10, - 10)) (ex_pressed ''scaling'' (100, 50)))
       = Inr (QRectF_xywh 0 0 (- 10) (- 10))
   \<and> rwidth (QRectF_xywh 0 0 (- 10) (- 10)) < 0
   \<and> rheight (QRectF_xywh 0 0 (- 10) (- 10)) < 0"
proof -
  let ?it = "ex_pressed ''scaling'' (100, 50)"
  have h: "handle_selected ?it = Some ''bottom_right''"
    by (rule ex_pressed_bottom_right)
  have r: "rect ?it = QRectF_xywh 0 0 100 50"
    by (simp add: ex_defs)
  have m: "transform_mode ?it = ''scaling''"
    by (rule ex_pressed_mode)
  have "rect (resize_item (- 10, - 10) ?it) = QRectF_xywh 0 0 (- 10) (- 10)"
    by (simp add: resize_item_def h r update_handles_def Let_def setBottomRight_def
        setBottom_def setRight_def QRectF_xywh_def)
  then show ?thesis
    using h r by (simp add: mouseMoveEvent_def truthy_def m ex_event_def)
qed

subsection \<open>C7: a rotation drag\<close>

text \<open>
  C7, as amended. In rotation mode with the rotate handle active, a move of the pointer
  sets the rotation of the item to the negation of the angle of the line from the centre
  of the rectangle to the pointer. The rotation is a property of its own: the 3x3 matrix
  of the item, which is what gets saved, is not changed, and neither is the rectangle.
\<close>

theorem rotation_drag_sets_rotation_only:
  assumes "transform_mode it = ''rotation''"
    and "handle_selected it = Some ''rotate''"
  shows "mouseMoveEvent e it = Inr (it\<lparr>rotation := - angle (center (rect it)) (ev_pos e)\<rparr>)"
  using assms by (simp add: mouseMoveEvent_def truthy_def rotate_item_def)

lemma angle_straight_up: "angle (50, 25) (50, - 20) = 90"
  by (simp add: angle_def atan2_def Let_def)

text \<open>An instance: the rotate handle of the 100 by 50 rectangle, pointer at \<open>(50, -20)\<close>,
  straight above the centre \<open>(50, 25)\<close>: the rotation becomes \<open>-90\<close>.\<close>

theorem rotation_drag_example:
  "transform_mode (ex_pressed ''rotation'' (50, - 20)) = ''rotation''
   \<and> handle_selected (ex_pressed ''rotation'' (50, - 20)) = Some ''rotate''
   \<and> mouseMoveEvent (ex_event (50, - 20)) (ex_pressed ''rotation'' (50, - 20))
       = Inr ((ex_pressed ''rotation'' (50, - 20))\<lparr>rotation := - 90\<rparr>)"
proof -
  let ?it = "ex_pressed ''rotation'' (50, - 20)"
  have h1: "transform_mode ?it = ''rotation''"
    by (rule ex_pressed_mode)
  have h2: "handle_selected ?it = Some ''rotate''"
    by (rule ex_pressed_rotate)
  have c: "center (rect ?it) = (50, 25)"
    by (simp add: ex_defs center_def)
  show ?thesis
    using h1 h2
      rotation_drag_sets_rotation_only [where e = "ex_event (50, - 20)", OF h1 h2]
    by (simp add: c ex_event_def angle_straight_up)
qed

text \<open>The claim as stated fails: in that instance the rotation changes from \<open>0\<close> to
  \<open>-90\<close>, and the 3x3 matrix of the item is the identity before and after.\<close>

theorem rotation_drag_keeps_matrix:
  "rotation (ex_pressed ''rotation'' (50, - 20)) = 0
   \<and> transform (ex_pressed ''rotation'' (50, - 20)) = identity
   \<and> map_sum id rotation
        (mouseMoveEvent (ex_event (50, - 20)) (ex_pressed ''rotation'' (50, - 20)))
       = Inr (- 90)
   \<and> map_sum id transform
        (mouseMoveEvent (ex_event (50, - 20)) (ex_pressed ''rotation'' (50, - 20)))
       = Inr identity"
proof -
  let ?it = "ex_pressed ''rotation'' (50, - 20)"
  have r: "rotation ?it = 0" and t: "transform ?it = identity"
    by (simp_all add: ex_defs)
  have c: "center (rect ?it) = (50, 25)"
    by (simp add: ex_defs center_def)
  have "mouseMoveEvent (ex_event (50, - 20)) ?it = Inr (?it\<lparr>rotation := - 90\<rparr>)"
    by (simp add: mouseMoveEvent_def truthy_def rotate_item_def ex_pressed_mode ex_pressed_rotate
        c ex_event_def angle_straight_up)
  then show ?thesis
    using r t by simp
qed

subsection \<open>C8: affine and perspective\<close>



subsection \<open>C9: changing the mode\<close>

text \<open>
  C9. \<^verbatim>\<open>set_transform_mode\<close> sets the mode of the window and of every item, and gives
  every item, selected or not, the handles of the new mode for its rectangle. Nothing
  else changes: the other fields of the window are as before, and so is every item once
  its mode and handles are left out of the comparison. In particular the rectangles are
  as before after rotation mode and then scaling mode have been set.
\<close>

theorem set_transform_mode_frame:
  "win_transform_mode (set_transform_mode mode w) = mode
   \<and> current_rect (set_transform_mode mode w) = current_rect w
   \<and> drawing (set_transform_mode mode w) = drawing w
   \<and> start_pos (set_transform_mode mode w) = start_pos w
   \<and> map transform_mode (scene (set_transform_mode mode w)) = replicate (length (scene w)) mode
   \<and> map handles (scene (set_transform_mode mode w))
       = map (\<lambda>it. handles (update_handles (it\<lparr>transform_mode := mode\<rparr>))) (scene w)
   \<and> map (\<lambda>it. it\<lparr>transform_mode := [], handles := []\<rparr>) (scene (set_transform_mode mode w))
       = map (\<lambda>it. it\<lparr>transform_mode := [], handles := []\<rparr>) (scene w)
   \<and> map rect (scene (set_transform_mode ''scaling'' (set_transform_mode ''rotation'' w)))
       = map rect (scene w)"
  by (simp add: set_transform_mode_def update_handles_def Let_def map_replicate_const comp_def)

subsection \<open>C10: what the saved record depends on\<close>

text \<open>
  C10. The record saved for an item is determined by its rectangle and its 3x3 matrix:
  two items that agree on these have the same record, whatever their positions and
  rotations. So a rotation drag and a move of the item by the pointer leave the record
  as it was.
\<close>

theorem serialize_ignores_pos_and_rotation:
  assumes "rect a = rect b" and "transform a = transform b"
  shows "serialize_item a = serialize_item b
       \<and> serialize_item (rotate_item p a) = serialize_item b
       \<and> serialize_item (super_mouseMoveEvent e a) = serialize_item b"
  using assms by (simp add: serialize_item_def rotate_item_def super_mouseMoveEvent_def)

text \<open>An instance: the 100 by 50 shape as created, and the same shape after it was moved by
  \<open>(30, 40)\<close> in translation mode and then rotated.\<close>

theorem serialize_ignores_example:
  "rect (rotate_item (50, - 20)
          (super_mouseMoveEvent \<lparr>ev_pos = (10, 10), ev_left = True, ev_move = (30, 40)\<rparr>
             (init_item ex_rect)))
     = rect (init_item ex_rect)
   \<and> transform (rotate_item (50, - 20)
          (super_mouseMoveEvent \<lparr>ev_pos = (10, 10), ev_left = True, ev_move = (30, 40)\<rparr>
             (init_item ex_rect)))
     = transform (init_item ex_rect)
   \<and> pos (rotate_item (50, - 20)
          (super_mouseMoveEvent \<lparr>ev_pos = (10, 10), ev_left = True, ev_move = (30, 40)\<rparr>
             (init_item ex_rect)))
     = (30, 40)
   \<and> pos (init_item ex_rect) = (0, 0)
   \<and> rotation (rotate_item (50, - 20)
          (super_mouseMoveEvent \<lparr>ev_pos = (10, 10), ev_left = True, ev_move = (30, 40)\<rparr>
             (init_item ex_rect)))
     = - 90
   \<and> rotation (init_item ex_rect) = 0
   \<and> serialize_item (rotate_item (50, - 20)
          (super_mouseMoveEvent \<lparr>ev_pos = (10, 10), ev_left = True, ev_move = (30, 40)\<rparr>
             (init_item ex_rect)))
     = serialize_item (init_item ex_rect)"
proof -
  let ?a = "rotate_item (50, - 20)
          (super_mouseMoveEvent \<lparr>ev_pos = (10, 10), ev_left = True, ev_move = (30, 40)\<rparr>
             (init_item ex_rect))"
  let ?b = "init_item ex_rect"
  have h1: "rect ?a = rect ?b" and h2: "transform ?a = transform ?b"
    by (simp_all add: rotate_item_def super_mouseMoveEvent_def)
  have p: "pos ?a = (30, 40)" "pos ?b = (0, 0)"
    by (simp_all add: rotate_item_def super_mouseMoveEvent_def init_item_def)
  have r: "rotation ?a = - 90" "rotation ?b = 0"
    by (simp_all add: rotate_item_def super_mouseMoveEvent_def init_item_def ex_rect_def
        center_def angle_straight_up)
  show ?thesis
    using h1 h2 p r serialize_ignores_pos_and_rotation [OF h1 h2] by blast
qed

end
